theory Spec2Isabelle
  imports Main "HOL-Library.Char_ord" "HOL-Library.List_Lexorder"
begin

section \<open>JavaScript values\<close>

text \<open>
  Request bodies, stored values and responses are JSON. An object is a finite map from
  property names to values; \<open>None\<close> at a name means that the property is absent (reading
  it gives \<open>undefined\<close>). Numbers are modelled by integers: no handler computes with a
  number, only their truthiness is ever inspected.
\<close>

datatype json =
    JNull
  | JBool bool
  | JNum int
  | JStr string
  | JArr "json list"
  | JObj "string \<Rightarrow> json option"

type_synonym obj = "string \<Rightarrow> json option"

text \<open>Truthiness, as tested by \<^verbatim>\<open>!x\<close>, \<^verbatim>\<open>x || y\<close> and \<^verbatim>\<open>x ? a : b\<close>.\<close>

fun truthy :: "json \<Rightarrow> bool" where
  "truthy JNull = False"
| "truthy (JBool b) = b"
| "truthy (JNum n) = (n \<noteq> 0)"
| "truthy (JStr s) = (s \<noteq> [])"
| "truthy (JArr xs) = True"
| "truthy (JObj m) = True"

text \<open>Decimal rendering of a natural number, as a template literal prints it.\<close>

definition digit :: "nat \<Rightarrow> char" where
  "digit d = ''0123456789'' ! d"

function show_nat :: "nat \<Rightarrow> string" where
  "show_nat n = (if n < 10 then [digit n] else show_nat (n div 10) @ [digit (n mod 10)])"
  by pat_completeness auto
termination
  by (relation "measure id") auto

declare show_nat.simps [simp del]

text \<open>
  Object spread \<^verbatim>\<open>{...v}\<close> copies the own enumerable properties of \<open>v\<close>: those of an
  object, the indices of an array or of a string, and nothing for \<^verbatim>\<open>null\<close>, a boolean
  or a number.
\<close>

definition indexed :: "'a list \<Rightarrow> (string \<Rightarrow> 'a option)" where
  "indexed xs = map_of (zip (map show_nat [0..<length xs]) xs)"

fun spread :: "json \<Rightarrow> obj" where
  "spread (JObj m) = m"
| "spread (JArr xs) = indexed xs"
| "spread (JStr s) = indexed (map (\<lambda>c. JStr [c]) s)"
| "spread JNull = Map.empty"
| "spread (JBool b) = Map.empty"
| "spread (JNum n) = Map.empty"

text \<open>
  Strict equality \<^verbatim>\<open>===\<close> on property values (\<open>None\<close> is \<open>undefined\<close>). Two arrays or
  two objects that come from different parses are different references.
\<close>

fun strict_eq :: "json option \<Rightarrow> json option \<Rightarrow> bool" where
  "strict_eq None None = True"
| "strict_eq (Some JNull) (Some JNull) = True"
| "strict_eq (Some (JBool a)) (Some (JBool b)) = (a = b)"
| "strict_eq (Some (JNum a)) (Some (JNum b)) = (a = b)"
| "strict_eq (Some (JStr a)) (Some (JStr b)) = (a = b)"
| "strict_eq x y = False"

text \<open>
  \<^verbatim>\<open>String.prototype.trim\<close> on strings of 8-bit code units: the white space and line
  terminator code points below 256.
\<close>

definition isWhiteSpace :: "char \<Rightarrow> bool" where
  "isWhiteSpace c =
     (c = CHR 0x09 \<or> c = CHR 0x0A \<or> c = CHR 0x0B \<or> c = CHR 0x0C \<or> c = CHR 0x0D
      \<or> c = CHR 0x20 \<or> c = CHR 0xA0)"

definition trim :: "string \<Rightarrow> string" where
  "trim s = rev (dropWhile isWhiteSpace (rev (dropWhile isWhiteSpace s)))"

section \<open>The REST facade (workers/app.ts)\<close>

text \<open>
  \<^verbatim>\<open>TODOS_KV\<close> is a map from keys to the JSON values stored under them. \<^verbatim>\<open>put\<close> stores
  \<^verbatim>\<open>JSON.stringify(v)\<close> and \<^verbatim>\<open>get(k, "json")\<close> parses it again, so the map holds the
  value itself; \<^verbatim>\<open>get\<close> of a missing key is \<^verbatim>\<open>null\<close>. The store is taken to be
  reliable: its calls do not throw, so the \<^verbatim>\<open>catch\<close> branches of the handlers are reached
  only by a request body that does not parse. Stored text that is not JSON is outside the
  model.
\<close>

type_synonym kv = "string \<Rightarrow> json option"

definition kv_get :: "kv \<Rightarrow> string \<Rightarrow> json" where
  "kv_get kv k = (case kv k of None \<Rightarrow> JNull | Some v \<Rightarrow> v)"

definition kv_put :: "string \<Rightarrow> json \<Rightarrow> kv \<Rightarrow> kv" where
  "kv_put k v kv = kv(k \<mapsto> v)"

definition kv_delete :: "string \<Rightarrow> kv \<Rightarrow> kv" where
  "kv_delete k kv = kv(k := None)"

text \<open>
  A response: status, status text and what \<^verbatim>\<open>response.json()\<close> yields, either the parsed
  body or (\<open>Inl\<close>) the message of the error it rejects with. \<^verbatim>\<open>c.json(v, s)\<close> builds a
  response with the body \<open>v\<close>, the status \<open>s\<close> and the empty status text.
\<close>

record response =
  status :: nat
  statusText :: string
  body :: "string + json"

definition ok :: "response \<Rightarrow> bool" where
  "ok r = (200 \<le> status r \<and> status r \<le> 299)"

definition c_json :: "json \<Rightarrow> nat \<Rightarrow> response" where
  "c_json v s = \<lparr>status = s, statusText = [], body = Inr v\<rparr>"

text \<open>
  The handlers take the request body as \<open>json option\<close>: \<open>None\<close> is a body that
  \<^verbatim>\<open>c.req.json()\<close> cannot parse, which throws into the handler's \<^verbatim>\<open>catch\<close>.
  \<open>uuid\<close> is the value of \<^verbatim>\<open>crypto.randomUUID()\<close> and \<open>now\<close> that of
  \<^verbatim>\<open>new Date().toISOString()\<close> for this request; \<open>keys\<close> are the key names that
  \<^verbatim>\<open>TODOS_KV.list()\<close> returns.
\<close>

definition todos_get :: "string list \<Rightarrow> kv \<Rightarrow> response" where
  "todos_get keys kv =
     c_json (JArr (filter truthy
                     (map (\<lambda>name. let v = kv_get kv name
                                   in if truthy v then JObj ((spread v)(''id'' \<mapsto> JStr name))
                                      else JNull)
                        keys))) 200"

definition todos_post :: "string \<Rightarrow> string \<Rightarrow> json option \<Rightarrow> kv \<Rightarrow> response \<times> kv" where
  "todos_post uuid now reqBody kv =
     (case reqBody of
        None \<Rightarrow> (c_json (JObj [''error'' \<mapsto> JStr ''Failed to create TODO'']) 500, kv)
      | Some todo \<Rightarrow>
          (let newTodo = JObj ((spread todo)(''id'' \<mapsto> JStr uuid,
                                             ''completed'' \<mapsto> JBool False,
                                             ''createdAt'' \<mapsto> JStr now))
           in (c_json newTodo 201, kv_put uuid newTodo kv)))"

definition todos_put :: "string \<Rightarrow> string \<Rightarrow> json option \<Rightarrow> kv \<Rightarrow> response \<times> kv" where
  "todos_put now tid reqBody kv =
     (case reqBody of
        None \<Rightarrow> (c_json (JObj [''error'' \<mapsto> JStr ''Failed to update TODO'']) 500, kv)
      | Some updates \<Rightarrow>
          (let existing = kv_get kv tid in
           if \<not> truthy existing
           then (c_json (JObj [''error'' \<mapsto> JStr ''TODO not found'']) 404, kv)
           else
             (let updatedTodo = JObj ((spread existing ++ spread updates)
                                        (''updatedAt'' \<mapsto> JStr now))
              in (c_json updatedTodo 200, kv_put tid updatedTodo kv))))"

definition todos_delete :: "string \<Rightarrow> kv \<Rightarrow> response \<times> kv" where
  "todos_delete tid kv = (c_json (JObj [''success'' \<mapsto> JBool True]) 200, kv_delete tid kv)"

text \<open>
  A stored value is a record when it is a JSON object. Every value this facade writes is
  one, so a store that only the facade has written holds records only.
\<close>

fun is_record :: "json \<Rightarrow> bool" where
  "is_record (JObj m) = True"
| "is_record v = False"

definition record_or_absent :: "kv \<Rightarrow> string \<Rightarrow> bool" where
  "record_or_absent kv k = (case kv k of None \<Rightarrow> True | Some v \<Rightarrow> is_record v)"

section \<open>The action dispatcher (app/routes/todos.tsx, action)\<close>

text \<open>
  The submitted form is a map from field names to their first value;
  \<^verbatim>\<open>formData.get\<close> of a missing field is \<^verbatim>\<open>null\<close>. A request to the facade is one of
  the three the action builds: a POST to \<^verbatim>\<open>/todos\<close>, and a PUT or a DELETE to
  \<^verbatim>\<open>/todos/${id}\<close>, which carry the identifier as the action pasted it into the path.
\<close>

type_synonym formData = "string \<Rightarrow> string option"

datatype api_request =
    POST_todos "json option"
  | PUT_todo string "json option"
  | DELETE_todo string

text \<open>What a \<^verbatim>\<open>throw\<close> carries: an \<^verbatim>\<open>Error\<close> with its message, or any other value.\<close>

datatype thrown = JsError string | NonError

datatype fetch_outcome = Rejects thrown | Resolves response

text \<open>The four shapes the action returns, tagged by \<^verbatim>\<open>intent\<close>.\<close>

datatype action_result =
    Create json
  | Update json
  | Delete string
  | ErrorResult string

definition failed_status :: "string \<Rightarrow> response \<Rightarrow> thrown" where
  "failed_status what r =
     JsError (''Failed to '' @ what @ '' todo (Status: '' @ show_nat (status r) @ '' ''
              @ statusText r @ '')'')"

definition error_message :: "thrown \<Rightarrow> string" where
  "error_message e = (case e of JsError m \<Rightarrow> m | NonError \<Rightarrow> ''An error occurred'')"

text \<open>
  \<^verbatim>\<open>JSON.stringify\<close> leaves out a property whose value is \<^verbatim>\<open>undefined\<close>; this is the
  object the facade parses from the stringified \<open>updates\<close>. A property of \<open>updates\<close> is
  \<open>Some None\<close> when it was assigned \<^verbatim>\<open>undefined\<close>.
\<close>

definition JSON_stringify :: "(string \<Rightarrow> json option option) \<Rightarrow> obj" where
  "JSON_stringify u = (\<lambda>k. case u k of Some (Some v) \<Rightarrow> Some v | _ \<Rightarrow> None)"

text \<open>
  The body of the \<^verbatim>\<open>try\<close> block, one definition per \<^verbatim>\<open>case\<close>. The result is \<open>Inl\<close> for a
  \<^verbatim>\<open>throw\<close>, paired with the requests issued; \<open>w\<close> is the state of whatever answers
  the requests. \<open>now\<close> is the dispatcher's own clock reading.
\<close>

definition create_case ::
  "(api_request \<Rightarrow> 'w \<Rightarrow> fetch_outcome \<times> 'w) \<Rightarrow> string \<Rightarrow> formData \<Rightarrow> 'w
     \<Rightarrow> ((thrown + action_result) \<times> api_request list) \<times> 'w" where
  "create_case fetchApi now formData w =
     (case map_option trim (formData ''title'') of
        None \<Rightarrow> ((Inl (JsError ''Title is required''), []), w)
      | Some title \<Rightarrow>
          if title = [] then ((Inl (JsError ''Title is required''), []), w)
          else
            (let newTodo = JObj [''title'' \<mapsto> JStr title, ''completed'' \<mapsto> JBool False,
                                 ''createdAt'' \<mapsto> JStr now];
                 req = POST_todos (Some newTodo)
             in case fetchApi req w of
                  (Rejects e, w') \<Rightarrow> ((Inl e, [req]), w')
                | (Resolves r, w') \<Rightarrow>
                    if \<not> ok r then ((Inl (failed_status ''create'' r), [req]), w')
                    else (case body r of
                            Inl m \<Rightarrow> ((Inl (JsError m), [req]), w')
                          | Inr d \<Rightarrow> ((Inr (Create d), [req]), w'))))"

text \<open>
  In the update case \<open>title\<close> is \<^verbatim>\<open>formData.get("title")?.toString()\<close>, which is
  \<^verbatim>\<open>undefined\<close> and not \<^verbatim>\<open>null\<close> for a missing field: the test \<^verbatim>\<open>title !== null\<close>
  always passes and \<open>updates.title\<close> is always assigned, possibly \<^verbatim>\<open>undefined\<close>.
\<close>

definition update_case ::
  "(api_request \<Rightarrow> 'w \<Rightarrow> fetch_outcome \<times> 'w) \<Rightarrow> formData \<Rightarrow> 'w
     \<Rightarrow> ((thrown + action_result) \<times> api_request list) \<times> 'w" where
  "update_case fetchApi formData w =
     (case formData ''id'' of
        None \<Rightarrow> ((Inl (JsError ''Todo ID is required''), []), w)
      | Some tid \<Rightarrow>
          if tid = [] then ((Inl (JsError ''Todo ID is required''), []), w)
          else
            (let title = formData ''title'';
                 completed = formData ''completed'';
                 updates0 = [''id'' \<mapsto> Some (JStr tid)];
                 updates1 = updates0(''title'' \<mapsto> map_option JStr title);
                 updates = (case completed of
                              None \<Rightarrow> updates1
                            | Some c \<Rightarrow> updates1(''completed'' \<mapsto> Some (JBool (c = ''true''))));
                 req = PUT_todo tid (Some (JObj (JSON_stringify updates)))
             in case fetchApi req w of
                  (Rejects e, w') \<Rightarrow> ((Inl e, [req]), w')
                | (Resolves r, w') \<Rightarrow>
                    if \<not> ok r then ((Inl (failed_status ''update'' r), [req]), w')
                    else (case body r of
                            Inl m \<Rightarrow> ((Inl (JsError ''Invalid response from server''), [req]), w')
                          | Inr result \<Rightarrow> ((Inr (Update result), [req]), w'))))"

definition delete_case ::
  "(api_request \<Rightarrow> 'w \<Rightarrow> fetch_outcome \<times> 'w) \<Rightarrow> formData \<Rightarrow> 'w
     \<Rightarrow> ((thrown + action_result) \<times> api_request list) \<times> 'w" where
  "delete_case fetchApi formData w =
     (case formData ''id'' of
        None \<Rightarrow> ((Inl (JsError ''Todo ID is required''), []), w)
      | Some tid \<Rightarrow>
          if tid = [] then ((Inl (JsError ''Todo ID is required''), []), w)
          else
            (let req = DELETE_todo tid
             in case fetchApi req w of
                  (Rejects e, w') \<Rightarrow> ((Inl e, [req]), w')
                | (Resolves r, w') \<Rightarrow>
                    if \<not> ok r then ((Inl (failed_status ''delete'' r), [req]), w')
                    else ((Inr (Delete tid), [req]), w')))"

definition try_block ::
  "(api_request \<Rightarrow> 'w \<Rightarrow> fetch_outcome \<times> 'w) \<Rightarrow> string \<Rightarrow> formData \<Rightarrow> 'w
     \<Rightarrow> ((thrown + action_result) \<times> api_request list) \<times> 'w" where
  "try_block fetchApi now formData w =
     (let intent = formData ''intent'' in
      if intent = Some ''create'' then create_case fetchApi now formData w
      else if intent = Some ''update'' then update_case fetchApi formData w
      else if intent = Some ''delete'' then delete_case fetchApi formData w
      else ((Inl (JsError (''Unknown intent: ''
                           @ (case intent of None \<Rightarrow> ''null'' | Some s \<Rightarrow> s))), []), w))"

text \<open>The action: the \<^verbatim>\<open>try\<close> block, with everything thrown caught into the error result.\<close>

definition action ::
  "(api_request \<Rightarrow> 'w \<Rightarrow> fetch_outcome \<times> 'w) \<Rightarrow> string \<Rightarrow> formData \<Rightarrow> 'w
     \<Rightarrow> (action_result \<times> api_request list) \<times> 'w" where
  "action fetchApi now formData w =
     (case try_block fetchApi now formData w of
        ((Inl error, sent), w') \<Rightarrow> ((ErrorResult (error_message error), sent), w')
      | ((Inr result, sent), w') \<Rightarrow> ((result, sent), w'))"

text \<open>
  \<^verbatim>\<open>context.fetchInternal\<close> makes a URL of the path and hands the request to the worker's
  router, against the store \<open>kv\<close>. What the URL parser and the router make of an
  identifier pasted into \<^verbatim>\<open>/todos/${id}\<close> is theirs to decide and not this repository's; it
  is the parameter \<open>routing\<close>: \<open>routing tid\<close> is \<open>Inl param\<close> when the route
  \<^verbatim>\<open>/:id\<close> is reached and its handler receives \<open>param\<close>, and \<open>Inr outcome\<close> when the
  request ends in another way, with that outcome (an identifier with \<^verbatim>\<open>?\<close>, \<^verbatim>\<open>#\<close>,
  \<^verbatim>\<open>/\<close> or \<^verbatim>\<open>%\<close> in it need not reach the route, or reaches it as another
  identifier). None of the worker's other routes writes the store. \<open>uuid\<close> and \<open>now\<close>
  are the worker's random identifier and clock reading for the request.
\<close>

type_synonym routing = "string \<Rightarrow> string + fetch_outcome"

definition fetchInternal ::
  "routing \<Rightarrow> string \<Rightarrow> string \<Rightarrow> api_request \<Rightarrow> kv \<Rightarrow> fetch_outcome \<times> kv" where
  "fetchInternal routing uuid now req kv =
     (case req of
        POST_todos b \<Rightarrow> (case todos_post uuid now b kv of (r, kv') \<Rightarrow> (Resolves r, kv'))
      | PUT_todo tid b \<Rightarrow>
          (case routing tid of
             Inl param \<Rightarrow> (case todos_put now param b kv of (r, kv') \<Rightarrow> (Resolves r, kv'))
           | Inr outcome \<Rightarrow> (outcome, kv))
      | DELETE_todo tid \<Rightarrow>
          (case routing tid of
             Inl param \<Rightarrow> (case todos_delete param kv of (r, kv') \<Rightarrow> (Resolves r, kv'))
           | Inr outcome \<Rightarrow> (outcome, kv)))"

section \<open>The data loader and revalidation (app/routes/todos.tsx)\<close>

text \<open>
  The loader fetches the list; of what it returns only \<open>todos\<close> is kept here (the locale
  and the time zone only format dates). It throws when the response is not \<^verbatim>\<open>ok\<close>.
\<close>

definition loader :: "string list \<Rightarrow> kv \<Rightarrow> thrown + json" where
  "loader keys kv =
     (let r = todos_get keys kv
      in if \<not> ok r
         then Inl (JsError (''Failed to load todos (Status: '' @ show_nat (status r) @ '' ''
                            @ statusText r @ '')''))
         else (case body r of Inl m \<Rightarrow> Inl (JsError m) | Inr todos \<Rightarrow> Inr todos))"

text \<open>
  The \<open>shouldRevalidate\<close> property of what the action returns: \<^verbatim>\<open>false\<close> on the three
  success results, absent on the error result.
\<close>

fun result_shouldRevalidate :: "action_result \<Rightarrow> bool option" where
  "result_shouldRevalidate (Create d) = Some False"
| "result_shouldRevalidate (Update d) = Some False"
| "result_shouldRevalidate (Delete tid) = Some False"
| "result_shouldRevalidate (ErrorResult e) = None"

text \<open>
  The route's \<open>shouldRevalidate\<close>: the router asks it, after an action, whether to run
  the loader again, and passes its own default.
\<close>

definition shouldRevalidate :: "bool option \<Rightarrow> bool \<Rightarrow> bool" where
  "shouldRevalidate actionResult_shouldRevalidate defaultShouldRevalidate =
     (if actionResult_shouldRevalidate = Some False then False else defaultShouldRevalidate)"

section \<open>The notification layer (app/context/toast-context.tsx)\<close>

text \<open>
  \<open>'cb\<close> is the type of the callbacks a notification carries. \<open>ToastInput\<close> is the
  argument of \<^verbatim>\<open>addToast\<close> (a \<open>ToastMessage\<close> without \<open>createdAt\<close> and with an optional
  identifier); a duration is a number of milliseconds, modelled by an integer.
\<close>

record 'cb ToastInput =
  id_in :: "string option"
  title_in :: string
  description_in :: "string option"
  duration_in :: "int option"
  action_in :: "(string \<times> 'cb) option"
  onDismiss_in :: "'cb option"

record 'cb ToastMessage =
  toast_id :: string
  title :: string
  description :: "string option"
  createdAt :: nat
  duration :: "int option"
  toast_action :: "(string \<times> 'cb) option"
  onDismiss :: "'cb option"

text \<open>
  \<open>now\<close> is \<^verbatim>\<open>Date.now()\<close> and \<open>rnd\<close> is \<^verbatim>\<open>Math.floor(Math.random() * 10000)\<close>.
\<close>

definition generated_id :: "nat \<Rightarrow> nat \<Rightarrow> string" where
  "generated_id now rnd = ''toast-'' @ show_nat now @ ''-'' @ show_nat rnd"

definition addToast ::
  "nat \<Rightarrow> nat \<Rightarrow> 'cb ToastInput \<Rightarrow> 'cb ToastMessage list \<Rightarrow> 'cb ToastMessage list" where
  "addToast now rnd toast prev =
     prev @
     [\<lparr>toast_id = (case id_in toast of
                     None \<Rightarrow> generated_id now rnd
                   | Some i \<Rightarrow> if i \<noteq> [] then i else generated_id now rnd),
       title = title_in toast,
       description = description_in toast,
       createdAt = now,
       duration = Some (case duration_in toast of
                          None \<Rightarrow> 5000
                        | Some d \<Rightarrow> if d \<noteq> 0 then d else 5000),
       toast_action = action_in toast,
       onDismiss = onDismiss_in toast\<rparr>]"



section \<open>The reconciliation view (app/routes/todos.tsx, TodosPage)\<close>

text \<open>
  The two closures the page hands to a notification: the undo button's \<^verbatim>\<open>onClick\<close> and
  the \<^verbatim>\<open>onDismiss\<close> that commits the delete, each closed over the todo's identifier.
\<close>

datatype callback = UndoDelete string | CommitDelete string

text \<open>
  What \<^verbatim>\<open>useActionData<ActionData>()\<close> yields, by the declared type \<open>ActionData\<close>: the
  payload of a create or update result is a \<open>Todo\<close> object. A result whose payload is not
  an object has no reading at that type.
\<close>

datatype ActionData =
    AD_create obj
  | AD_update obj
  | AD_delete string
  | AD_error string

fun useActionData :: "action_result \<Rightarrow> ActionData option" where
  "useActionData (Create (JObj m)) = Some (AD_create m)"
| "useActionData (Update (JObj m)) = Some (AD_update m)"
| "useActionData (Delete tid) = Some (AD_delete tid)"
| "useActionData (ErrorResult e) = Some (AD_error e)"
| "useActionData r = None"

datatype navigation_state = Idle | Loading | Submitting

text \<open>
  The screen-reader announcement: a fixed text, or one of the two templates around the
  \<open>title\<close> property of the returned todo.
\<close>

datatype announcement =
    Text string
  | Todo_updated "json option"
  | Todo_added "json option"

text \<open>
  The state of the page: its \<^verbatim>\<open>useState\<close> cells, the \<^verbatim>\<open>deletingTodoIdRef\<close> cell, and
  the notification queue of the toast context.
\<close>

record page =
  todos :: "obj list"
  newTodoTitle :: string
  editingTodoId :: "string option"
  editTodoTitle :: string
  deletingTodoId :: "string option"
  deletingTodoIdRef :: "string option"
  srAnnouncement :: announcement
  toasts :: "callback ToastMessage list"


text \<open>
  The effect on \<^verbatim>\<open>[initialTodos]\<close>: whenever the loader has run again, the list is
  replaced by what it returned, read at the declared type \<^verbatim>\<open>Todo[]\<close> (a value that is not
  an array of objects has no reading at that type).
\<close>

fun as_todos :: "json \<Rightarrow> obj list option" where
  "as_todos (JArr xs) = (if list_all is_record xs then Some (map spread xs) else None)"
| "as_todos v = None"

definition initialTodos_effect :: "json \<Rightarrow> page \<Rightarrow> page" where
  "initialTodos_effect loaded st =
     (case as_todos loaded of None \<Rightarrow> st | Some initialTodos \<Rightarrow> st\<lparr>todos := initialTodos\<rparr>)"

text \<open>
  The effect on \<^verbatim>\<open>[actionData, navigation.state]\<close>. \<open>now\<close> and \<open>rnd\<close> are the clock and
  random readings of the \<^verbatim>\<open>addToast\<close> call. (Returning the focus to the entry field
  is an effect on the document and is not part of the state.)
\<close>

definition actionData_effect ::
  "navigation_state \<Rightarrow> ActionData option \<Rightarrow> nat \<Rightarrow> nat \<Rightarrow> page \<Rightarrow> page" where
  "actionData_effect nav actionData now rnd st =
     (if nav \<noteq> Idle then st
      else case actionData of
        None \<Rightarrow> st
      | Some (AD_error e) \<Rightarrow>
          st\<lparr>toasts := addToast now rnd
                          \<lparr>id_in = None, title_in = ''Error'', description_in = Some e,
                           duration_in = Some 3000, action_in = None, onDismiss_in = None\<rparr>
                          (toasts st),
             srAnnouncement := Text (''Error: '' @ e)\<rparr>
      | Some (AD_delete tid) \<Rightarrow>
          st\<lparr>todos := filter (\<lambda>todo. \<not> strict_eq (todo ''id'') (Some (JStr tid))) (todos st),
             deletingTodoId := None,
             deletingTodoIdRef := None,
             srAnnouncement := Text ''Todo deleted''\<rparr>
      | Some (AD_update updatedTodo) \<Rightarrow>
          st\<lparr>todos := map (\<lambda>todo. if strict_eq (todo ''id'') (updatedTodo ''id'')
                                   then todo ++ updatedTodo else todo) (todos st),
             editingTodoId := None,
             srAnnouncement := Todo_updated (updatedTodo ''title'')\<rparr>
      | Some (AD_create d) \<Rightarrow>
          st\<lparr>todos := todos st @ [d],
             newTodoTitle := [],
             srAnnouncement := Todo_added (d ''title'')\<rparr>)"











text \<open>
  \<^verbatim>\<open>submit\<close>: the router runs the action on the form, asks \<open>shouldRevalidate\<close> and, if
  told so, runs the loader again; back at \<^verbatim>\<open>navigation.state = "idle"\<close> the page's effects
  see the new loader data and the action's result, in the order the page declares them. A
  loader that throws hands the page over to the route's error boundary (\<open>Inl\<close>). The
  state is the page together with the store; \<open>routing\<close> is what the URL parser and the
  router make of identifiers, \<open>defaultShouldRevalidate\<close> is the router's default,
  \<open>keys\<close> the store's key listing at the reload, \<open>uuid\<close> and \<open>serverNow\<close> the
  worker's readings, \<open>clientNow\<close> the dispatcher's clock, \<open>toastNow\<close> and \<open>rnd\<close> those
  of the effect.
\<close>

definition submit ::
  "routing \<Rightarrow> bool \<Rightarrow> string list \<Rightarrow> string \<Rightarrow> string \<Rightarrow> string \<Rightarrow> nat \<Rightarrow> nat \<Rightarrow> formData
     \<Rightarrow> page \<times> kv \<Rightarrow> thrown + page \<times> kv" where
  "submit routing defaultShouldRevalidate keys uuid serverNow clientNow toastNow rnd formData s =
     (case s of
        (st, kv) \<Rightarrow>
          (case action (fetchInternal routing uuid serverNow) clientNow formData kv of
             ((result, sent), kv') \<Rightarrow>
               if shouldRevalidate (result_shouldRevalidate result) defaultShouldRevalidate
               then (case loader keys kv' of
                       Inl e \<Rightarrow> Inl e
                     | Inr loaded \<Rightarrow>
                         Inr (actionData_effect Idle (useActionData result) toastNow rnd
                                (initialTodos_effect loaded st), kv'))
               else Inr (actionData_effect Idle (useActionData result) toastNow rnd st, kv')))"

section \<open>The page as an event loop\<close>







section \<open>Notions used to state the properties\<close>



text \<open>
  The object the facade parses from the body of a dispatched update: the identifier, and
  the title and the completed flag when the form has them.
\<close>

definition update_fields :: "string \<Rightarrow> formData \<Rightarrow> obj" where
  "update_fields tid formData =
     (\<lambda>k. if k = ''id'' then Some (JStr tid)
          else if k = ''title'' then map_option JStr (formData ''title'')
          else if k = ''completed''
            then map_option (\<lambda>c. JBool (c = ''true'')) (formData ''completed'')
          else None)"



text \<open>
  The order of two timestamps: both are ISO strings as \<^verbatim>\<open>toISOString\<close> prints them, which
  the lexicographic order on strings orders by time.
\<close>

fun stamp_less :: "json option \<Rightarrow> json option \<Rightarrow> bool" where
  "stamp_less (Some (JStr a)) (Some (JStr b)) = (a < b)"
| "stamp_less x y = False"

section \<open>Facts about the facade\<close>

lemma show_nat_digits [simp]:
  "show_nat 200 = ''200''" "show_nat 201 = ''201''" "show_nat 404 = ''404''"
  "show_nat 500 = ''500''"
  by (simp_all add: show_nat.simps digit_def)

lemma truthy_record: "is_record v \<Longrightarrow> truthy v"
  by (cases v) simp_all

lemma spread_record: "is_record v \<Longrightarrow> JObj (spread v) = v"
  by (cases v) simp_all

lemma todos_post_writes_record:
  "record_or_absent kv k \<Longrightarrow> record_or_absent (snd (todos_post uuid now b kv)) k"
  by (cases b) (simp_all add: todos_post_def record_or_absent_def kv_put_def Let_def)

lemma todos_put_writes_record:
  "record_or_absent kv k \<Longrightarrow> record_or_absent (snd (todos_put now tid b kv)) k"
  by (cases b) (simp_all add: todos_put_def record_or_absent_def kv_put_def Let_def)

lemma todos_delete_keeps_records:
  "record_or_absent kv k \<Longrightarrow> record_or_absent (snd (todos_delete tid kv)) k"
  by (simp add: todos_delete_def record_or_absent_def kv_delete_def)

lemma todos_put_found:
  assumes "kv tid = Some (JObj m)"
  shows "todos_put now tid (Some u) kv =
           (c_json (JObj ((m ++ spread u)(''updatedAt'' \<mapsto> JStr now))) 200,
            kv(tid \<mapsto> JObj ((m ++ spread u)(''updatedAt'' \<mapsto> JStr now))))"
  using assms by (simp add: todos_put_def kv_get_def kv_put_def Let_def)

lemma todos_put_missing:
  assumes "kv tid = None"
  shows "todos_put now tid (Some u) kv =
           (c_json (JObj [''error'' \<mapsto> JStr ''TODO not found'']) 404, kv)"
  using assms by (simp add: todos_put_def kv_get_def)

lemma todos_put_unparsed:
  "todos_put now tid None kv =
     (c_json (JObj [''error'' \<mapsto> JStr ''Failed to update TODO'']) 500, kv)"
  by (simp add: todos_put_def)

section \<open>Evaluating concrete runs\<close>

text \<open>The definitions that evaluate a run of the dispatcher against the facade.\<close>

lemmas run_defs =
  action_def try_block_def create_case_def update_case_def delete_case_def
  fetchInternal_def todos_post_def todos_put_def todos_delete_def
  kv_get_def kv_put_def kv_delete_def c_json_def ok_def
  failed_status_def error_message_def JSON_stringify_def Let_def

text \<open>Trimming two titles: two spaces, and a word between spaces.\<close>

lemma trim_blank: "trim ''  '' = []"
  by (simp add: trim_def isWhiteSpace_def)

lemma trim_tea: "trim '' tea '' = ''tea''"
  by (simp add: trim_def isWhiteSpace_def)

section \<open>Deleting through the facade\<close>

text \<open>
  Claim C9. The delete operation is idempotent and its response does not tell whether the
  record existed: for every identifier and every store the response is
  \<^verbatim>\<open>{success: true}\<close> with status 200, the same response for any two stores, the store
  afterwards is the old one without the identifier, and deleting a second time changes
  nothing more.
\<close>

theorem todos_delete_idempotent:
  "fst (todos_delete tid kv) = c_json (JObj [''success'' \<mapsto> JBool True]) 200
   \<and> status (fst (todos_delete tid kv)) = 200
   \<and> fst (todos_delete tid kv) = fst (todos_delete tid kv')
   \<and> snd (todos_delete tid kv) = kv(tid := None)
   \<and> snd (todos_delete tid (snd (todos_delete tid kv))) = snd (todos_delete tid kv)"
  by (simp add: todos_delete_def kv_delete_def c_json_def)

section \<open>Updating through the facade: not found\<close>

text \<open>
  A counterexample to C5 as stated. The claim says that an update answers 404 exactly when
  the identifier is absent, and 200 with the merged record when it is present. A request
  whose body does not parse is answered 500 before the store is even read: here for an
  absent identifier.
\<close>

theorem todos_put_unparsed_body_counterexample:
  "Map.empty ''a1'' = (None :: json option)
   \<and> status (fst (todos_put ''2024-05-02T08:00:00.000Z'' ''a1'' None Map.empty)) = 500
   \<and> status (fst (todos_put ''2024-05-02T08:00:00.000Z'' ''a1'' None Map.empty)) \<noteq> 404"
  by (simp add: todos_put_def c_json_def)

text \<open>
  Claim C5 (amended). For a request whose body parses as JSON, on a store whose value under
  the identifier, if any, is a record: the update answers 404 if and only if the
  identifier is absent, and then the store is unchanged; when the identifier is present
  it answers 200 with the merged record, whose \<open>updatedAt\<close> is the clock reading of the
  request, and stores that record. A body that does not parse is answered 500 and leaves
  the store unchanged.
\<close>

theorem todos_put_not_found_iff_absent:
  assumes "record_or_absent kv tid"
  shows "todos_put now tid (Some updates) kv =
           (if kv tid = None
            then (c_json (JObj [''error'' \<mapsto> JStr ''TODO not found'']) 404, kv)
            else (c_json (JObj ((spread (kv_get kv tid) ++ spread updates)
                                  (''updatedAt'' \<mapsto> JStr now))) 200,
                  kv(tid \<mapsto> JObj ((spread (kv_get kv tid) ++ spread updates)
                                   (''updatedAt'' \<mapsto> JStr now)))))
         \<and> (status (fst (todos_put now tid (Some updates) kv)) = 404) = (kv tid = None)
         \<and> (status (fst (todos_put now tid (Some updates) kv)) = 200) = (kv tid \<noteq> None)
         \<and> todos_put now tid None kv =
             (c_json (JObj [''error'' \<mapsto> JStr ''Failed to update TODO'']) 500, kv)"
proof (cases "kv tid")
  case None
  then show ?thesis
    by (simp add: todos_put_missing todos_put_unparsed c_json_def)
next
  case (Some v)
  with assms obtain m where v: "v = JObj m"
    by (cases v) (simp_all add: record_or_absent_def)
  from Some v have "kv tid = Some (JObj m)" by simp
  then show ?thesis
    by (simp add: todos_put_found todos_put_unparsed c_json_def kv_get_def)
qed

text \<open>The amended claim at a store with one record: a present and an absent identifier.\<close>

theorem todos_put_not_found_iff_absent_witness:
  "record_or_absent [''a1'' \<mapsto> JObj [''title'' \<mapsto> JStr ''milk'']] ''a1''
   \<and> status (fst (todos_put ''2024-05-02T08:00:00.000Z'' ''a1''
                     (Some (JObj [''completed'' \<mapsto> JBool True]))
                     [''a1'' \<mapsto> JObj [''title'' \<mapsto> JStr ''milk'']])) = 200
   \<and> record_or_absent [''a1'' \<mapsto> JObj [''title'' \<mapsto> JStr ''milk'']] ''b2''
   \<and> status (fst (todos_put ''2024-05-02T08:00:00.000Z'' ''b2''
                     (Some (JObj [''completed'' \<mapsto> JBool True]))
                     [''a1'' \<mapsto> JObj [''title'' \<mapsto> JStr ''milk'']])) = 404"
proof -
  have present: "record_or_absent [''a1'' \<mapsto> JObj [''title'' \<mapsto> JStr ''milk'']] ''a1''"
    by (simp add: record_or_absent_def)
  have absent: "record_or_absent [''a1'' \<mapsto> JObj [''title'' \<mapsto> JStr ''milk'']] ''b2''"
    by (simp add: record_or_absent_def)
  show ?thesis
    using present absent
      todos_put_not_found_iff_absent [OF present, of "''2024-05-02T08:00:00.000Z''"
        "JObj [''completed'' \<mapsto> JBool True]"]
      todos_put_not_found_iff_absent [OF absent, of "''2024-05-02T08:00:00.000Z''"
        "JObj [''completed'' \<mapsto> JBool True]"]
    by (simp add: c_json_def)
qed

section \<open>The dispatcher folds every failure into one error result\<close>






lemma action_world: "snd (action f now fd w) = snd (try_block f now fd w)"
  by (simp add: action_def split: prod.split sum.split)

lemma action_result:
  "fst (fst (action f now fd w)) =
     (case fst (fst (try_block f now fd w)) of
        Inl e \<Rightarrow> ErrorResult (error_message e) | Inr r \<Rightarrow> r)"
  by (simp add: action_def split: prod.split sum.split)










lemma action_title_required:
  assumes "fd ''intent'' = Some ''create''"
    "case fd ''title'' of None \<Rightarrow> True | Some t \<Rightarrow> trim t = []"
  shows "action f now fd w = ((ErrorResult ''Title is required'', []), w)"
  using assms
  by (cases "fd ''title''")
     (simp_all add: action_def try_block_def create_case_def error_message_def)









section \<open>The dispatcher against the facade\<close>

text \<open>
  What a create, a delete and an update intent do when the requests go to the worker's own
  routes over the store \<open>kv\<close>.
\<close>

lemma action_create_stored:
  assumes "fd ''intent'' = Some ''create''" "fd ''title'' = Some t" "trim t \<noteq> []"
  shows "action (fetchInternal routing uuid serverNow) clientNow fd kv =
           ((Create (JObj [''title'' \<mapsto> JStr (trim t), ''id'' \<mapsto> JStr uuid,
                           ''completed'' \<mapsto> JBool False, ''createdAt'' \<mapsto> JStr serverNow]),
             [POST_todos (Some (JObj [''title'' \<mapsto> JStr (trim t), ''completed'' \<mapsto> JBool False,
                                      ''createdAt'' \<mapsto> JStr clientNow]))]),
            kv(uuid \<mapsto> JObj [''title'' \<mapsto> JStr (trim t), ''id'' \<mapsto> JStr uuid,
                            ''completed'' \<mapsto> JBool False, ''createdAt'' \<mapsto> JStr serverNow]))"
  using assms by (simp add: run_defs)



text \<open>The body the dispatcher sends for an update.\<close>

lemma update_body:
  "JSON_stringify
     (case fd ''completed'' of
        None \<Rightarrow> [''id'' \<mapsto> Some (JStr tid), ''title'' \<mapsto> map_option JStr (fd ''title'')]
      | Some c \<Rightarrow> [''id'' \<mapsto> Some (JStr tid), ''title'' \<mapsto> map_option JStr (fd ''title''),
                   ''completed'' \<mapsto> Some (JBool (c = ''true''))])
   = update_fields tid fd"
  by (rule ext) (simp add: JSON_stringify_def update_fields_def split: option.split)

text \<open>
  An update intent: the store after it, whatever the routing; the handler's write leaves
  every other key alone.
\<close>

lemma action_update_store:
  assumes "fd ''intent'' = Some ''update''" "fd ''id'' = Some tid" "tid \<noteq> []"
  shows "snd (action (fetchInternal routing uuid serverNow) clientNow fd kv) =
           (case routing tid of
              Inl param \<Rightarrow> snd (todos_put serverNow param (Some (JObj (update_fields tid fd))) kv)
            | Inr outcome \<Rightarrow> kv)"
  using assms
  by (simp add: action_world try_block_def update_case_def fetchInternal_def Let_def
        update_body split: sum.split fetch_outcome.split prod.split)

lemma todos_put_elsewhere:
  "k \<noteq> param \<Longrightarrow> snd (todos_put now param b kv) k = kv k"
  by (cases b) (simp_all add: todos_put_def kv_put_def Let_def)

lemma merged_fields:
  "(m ++ update_fields tid fd)(''updatedAt'' \<mapsto> JStr serverNow)
     = (\<lambda>k. if k = ''updatedAt'' then Some (JStr serverNow)
            else if k = ''id'' then Some (JStr tid)
            else if k = ''title'' \<and> fd ''title'' \<noteq> None
              then map_option JStr (fd ''title'')
            else if k = ''completed'' \<and> fd ''completed'' \<noteq> None
              then map_option (\<lambda>c. JBool (c = ''true'')) (fd ''completed'')
            else m k)"
  by (rule ext) (auto simp add: map_add_def update_fields_def split: option.split)

lemma action_update_stored:
  assumes "fd ''intent'' = Some ''update''" "fd ''id'' = Some tid" "tid \<noteq> []"
    "routing tid = Inl tid" "kv tid = Some (JObj m)"
  shows "snd (action (fetchInternal routing uuid serverNow) clientNow fd kv) =
           kv(tid \<mapsto> JObj (\<lambda>k. if k = ''updatedAt'' then Some (JStr serverNow)
                               else if k = ''id'' then Some (JStr tid)
                               else if k = ''title'' \<and> fd ''title'' \<noteq> None
                                 then map_option JStr (fd ''title'')
                               else if k = ''completed'' \<and> fd ''completed'' \<noteq> None
                                 then map_option (\<lambda>c. JBool (c = ''true'')) (fd ''completed'')
                               else m k))"
  using assms
  by (simp add: action_update_store todos_put_found merged_fields)

text \<open>
  Whatever the routing, an update intent for \<open>tid\<close> leaves the record under \<open>tid\<close> as it
  was or stores the merged record there.
\<close>

lemma action_update_at:
  assumes "fd ''intent'' = Some ''update''" "fd ''id'' = Some tid" "tid \<noteq> []"
    "kv tid = Some (JObj m)"
  shows "snd (action (fetchInternal routing uuid serverNow) clientNow fd kv) tid =
           (if routing tid = Inl tid
            then Some (JObj ((m ++ update_fields tid fd)(''updatedAt'' \<mapsto> JStr serverNow)))
            else Some (JObj m))"
proof (cases "routing tid")
  case (Inl param)
  show ?thesis
  proof (cases "param = tid")
    case True
    with Inl assms show ?thesis
      by (simp add: action_update_store todos_put_found)
  next
    case False
    with Inl assms todos_put_elsewhere [of tid param] show ?thesis
      by (simp add: action_update_store)
  qed
next
  case (Inr outcome)
  with assms show ?thesis by (simp add: action_update_store)
qed

section \<open>Titles\<close>








text \<open>
  The dispatcher's update case does not test the title, as its create case does: an update
  intent whose title is the empty string stores it.
\<close>

lemma update_intent_empty_title:
  "snd (action (fetchInternal Inl ''u1'' ''2024-05-02T08:00:00.000Z'')
          ''2024-05-02T07:59:59.000Z''
          [''intent'' \<mapsto> ''update'', ''id'' \<mapsto> ''a1'', ''title'' \<mapsto> []]
          [''a1'' \<mapsto> JObj [''id'' \<mapsto> JStr ''a1'', ''title'' \<mapsto> JStr ''milk'']]) ''a1''
   = Some (JObj [''id'' \<mapsto> JStr ''a1'', ''title'' \<mapsto> JStr [],
                 ''updatedAt'' \<mapsto> JStr ''2024-05-02T08:00:00.000Z''])"
  by (simp add: action_update_at merged_fields) (rule ext, simp)




section \<open>What an update changes\<close>

text \<open>
  A counterexample to C3 as stated. The claim says that \<open>createdAt\<close> is the same after
  any update, a direct PUT with an arbitrary partial body included. The PUT handler
  spreads the body over the stored record: a body that supplies \<open>createdAt\<close> replaces
  it.
\<close>

theorem put_overwrites_createdAt_counterexample:
  "spread (kv_get [''a1'' \<mapsto> JObj [''id'' \<mapsto> JStr ''a1'', ''title'' \<mapsto> JStr ''milk'',
                                       ''completed'' \<mapsto> JBool False,
                                       ''createdAt'' \<mapsto> JStr ''2024-05-01T10:00:00.000Z'']]
             ''a1'') ''createdAt''
     = Some (JStr ''2024-05-01T10:00:00.000Z'')
   \<and> spread (kv_get
        (snd (todos_put ''2024-05-02T08:00:00.000Z'' ''a1''
                (Some (JObj [''createdAt'' \<mapsto> JStr ''1999-01-01T00:00:00.000Z'']))
                [''a1'' \<mapsto> JObj [''id'' \<mapsto> JStr ''a1'', ''title'' \<mapsto> JStr ''milk'',
                                ''completed'' \<mapsto> JBool False,
                                ''createdAt'' \<mapsto> JStr ''2024-05-01T10:00:00.000Z'']]))
        ''a1'') ''createdAt''
     = Some (JStr ''1999-01-01T00:00:00.000Z'')"
  by (simp add: todos_put_def kv_get_def kv_put_def Let_def)

text \<open>
  Claim C3 (amended). On an existing record: a direct PUT with a JSON body changes only the
  properties the body supplies and \<open>updatedAt\<close> (every other property of the record, and
  every other key of the store, is as before), so \<open>createdAt\<close> is kept whenever the
  body does not supply it; an update issued through the dispatcher sends \<open>id\<close>, and
  \<open>title\<close> and \<open>completed\<close> when the form has them, so it keeps \<open>createdAt\<close> and every
  property other than \<open>id\<close>, \<open>title\<close>, \<open>completed\<close> and \<open>updatedAt\<close>, and keeps
  \<open>title\<close> or \<open>completed\<close> when the form does not have it.
\<close>

theorem update_frame:
  assumes "kv tid = Some (JObj m)"
  shows "(\<forall>k. spread updates k = None \<and> k \<noteq> ''updatedAt''
            \<longrightarrow> spread (kv_get (snd (todos_put now tid (Some updates) kv)) tid) k = m k)
         \<and> (\<forall>k. k \<noteq> tid \<longrightarrow> snd (todos_put now tid (Some updates) kv) k = kv k)
         \<and> (fd ''intent'' = Some ''update'' \<and> fd ''id'' = Some tid \<and> tid \<noteq> []
            \<longrightarrow> spread (kv_get (snd (action (fetchInternal routing uuid now) clientNow fd kv)) tid)
                   ''createdAt'' = m ''createdAt''
                \<and> (\<forall>k. k \<noteq> ''id'' \<and> k \<noteq> ''title'' \<and> k \<noteq> ''completed'' \<and> k \<noteq> ''updatedAt''
                     \<longrightarrow> spread (kv_get (snd (action (fetchInternal routing uuid now) clientNow fd kv))
                                  tid) k = m k)
                \<and> (fd ''title'' = None
                     \<longrightarrow> spread (kv_get (snd (action (fetchInternal routing uuid now) clientNow fd kv))
                                  tid) ''title'' = m ''title'')
                \<and> (fd ''completed'' = None
                     \<longrightarrow> spread (kv_get (snd (action (fetchInternal routing uuid now) clientNow fd kv))
                                  tid) ''completed'' = m ''completed''))"
proof -
  have direct: "\<forall>k. spread updates k = None \<and> k \<noteq> ''updatedAt''
            \<longrightarrow> spread (kv_get (snd (todos_put now tid (Some updates) kv)) tid) k = m k"
    using assms by (simp add: todos_put_found kv_get_def map_add_def)
  have others: "\<forall>k. k \<noteq> tid \<longrightarrow> snd (todos_put now tid (Some updates) kv) k = kv k"
    using assms by (simp add: todos_put_found)
  have dispatched: "fd ''intent'' = Some ''update'' \<and> fd ''id'' = Some tid \<and> tid \<noteq> []
            \<longrightarrow> spread (kv_get (snd (action (fetchInternal routing uuid now) clientNow fd kv)) tid)
                   ''createdAt'' = m ''createdAt''
                \<and> (\<forall>k. k \<noteq> ''id'' \<and> k \<noteq> ''title'' \<and> k \<noteq> ''completed'' \<and> k \<noteq> ''updatedAt''
                     \<longrightarrow> spread (kv_get (snd (action (fetchInternal routing uuid now) clientNow fd kv))
                                  tid) k = m k)
                \<and> (fd ''title'' = None
                     \<longrightarrow> spread (kv_get (snd (action (fetchInternal routing uuid now) clientNow fd kv))
                                  tid) ''title'' = m ''title'')
                \<and> (fd ''completed'' = None
                     \<longrightarrow> spread (kv_get (snd (action (fetchInternal routing uuid now) clientNow fd kv))
                                  tid) ''completed'' = m ''completed'')"
    using assms by (simp add: action_update_at merged_fields kv_get_def)
  from direct others dispatched show ?thesis by blast
qed

text \<open>A direct PUT of \<open>completed\<close> and a dispatched update of the title, on one record.\<close>

theorem update_frame_witness:
  "[''a1'' \<mapsto> JObj [''id'' \<mapsto> JStr ''a1'', ''title'' \<mapsto> JStr ''milk'',
                      ''completed'' \<mapsto> JBool False,
                      ''createdAt'' \<mapsto> JStr ''2024-05-01T10:00:00.000Z'']] ''a1''
     = Some (JObj [''id'' \<mapsto> JStr ''a1'', ''title'' \<mapsto> JStr ''milk'',
                   ''completed'' \<mapsto> JBool False,
                   ''createdAt'' \<mapsto> JStr ''2024-05-01T10:00:00.000Z''])
   \<and> spread (kv_get (snd (todos_put ''2024-05-02T08:00:00.000Z'' ''a1''
                (Some (JObj [''completed'' \<mapsto> JBool True]))
                [''a1'' \<mapsto> JObj [''id'' \<mapsto> JStr ''a1'', ''title'' \<mapsto> JStr ''milk'',
                                ''completed'' \<mapsto> JBool False,
                                ''createdAt'' \<mapsto> JStr ''2024-05-01T10:00:00.000Z'']]))
        ''a1'') ''title'' = Some (JStr ''milk'')
   \<and> spread (kv_get (snd (action (fetchInternal Inl ''u1'' ''2024-05-02T08:00:00.000Z'')
                ''2024-05-02T07:59:59.000Z''
                [''intent'' \<mapsto> ''update'', ''id'' \<mapsto> ''a1'', ''title'' \<mapsto> ''oat milk'']
                [''a1'' \<mapsto> JObj [''id'' \<mapsto> JStr ''a1'', ''title'' \<mapsto> JStr ''milk'',
                                ''completed'' \<mapsto> JBool False,
                                ''createdAt'' \<mapsto> JStr ''2024-05-01T10:00:00.000Z'']]))
        ''a1'') ''createdAt'' = Some (JStr ''2024-05-01T10:00:00.000Z'')
   \<and> spread (kv_get (snd (action (fetchInternal Inl ''u1'' ''2024-05-02T08:00:00.000Z'')
                ''2024-05-02T07:59:59.000Z''
                [''intent'' \<mapsto> ''update'', ''id'' \<mapsto> ''a1'', ''title'' \<mapsto> ''oat milk'']
                [''a1'' \<mapsto> JObj [''id'' \<mapsto> JStr ''a1'', ''title'' \<mapsto> JStr ''milk'',
                                ''completed'' \<mapsto> JBool False,
                                ''createdAt'' \<mapsto> JStr ''2024-05-01T10:00:00.000Z'']]))
        ''a1'') ''completed'' = Some (JBool False)"
  using update_frame [where tid = "''a1''" and now = "''2024-05-02T08:00:00.000Z''"
      and uuid = "''u1''" and routing = Inl and clientNow = "''2024-05-02T07:59:59.000Z''"
      and updates = "JObj [''completed'' \<mapsto> JBool True]"
      and fd = "[''intent'' \<mapsto> ''update'', ''id'' \<mapsto> ''a1'', ''title'' \<mapsto> ''oat milk'']"
      and kv = "[''a1'' \<mapsto> JObj [''id'' \<mapsto> JStr ''a1'', ''title'' \<mapsto> JStr ''milk'',
                                ''completed'' \<mapsto> JBool False,
                                ''createdAt'' \<mapsto> JStr ''2024-05-01T10:00:00.000Z'']]"
      and m = "[''id'' \<mapsto> JStr ''a1'', ''title'' \<mapsto> JStr ''milk'',
                ''completed'' \<mapsto> JBool False,
                ''createdAt'' \<mapsto> JStr ''2024-05-01T10:00:00.000Z'']"]
  by simp

section \<open>Creating a record\<close>

lemma submit_create:
  assumes "fd ''intent'' = Some ''create''" "fd ''title'' = Some t" "trim t \<noteq> []"
  shows "submit routing defaultShouldRevalidate keys uuid serverNow clientNow toastNow rnd fd (st, kv) =
           Inr (st\<lparr>todos := todos st @ [[''title'' \<mapsto> JStr (trim t), ''id'' \<mapsto> JStr uuid,
                                          ''completed'' \<mapsto> JBool False,
                                          ''createdAt'' \<mapsto> JStr serverNow]],
                   newTodoTitle := [],
                   srAnnouncement := Todo_added (Some (JStr (trim t)))\<rparr>,
                kv(uuid \<mapsto> JObj [''title'' \<mapsto> JStr (trim t), ''id'' \<mapsto> JStr uuid,
                                ''completed'' \<mapsto> JBool False,
                                ''createdAt'' \<mapsto> JStr serverNow]))"
  using assms
  by (simp add: submit_def action_create_stored actionData_effect_def shouldRevalidate_def)

text \<open>
  Claim C4 (amended): for every create intent whose title is non-empty after trimming, the
  dispatcher issues exactly one request, the facade stores one record under the generated
  identifier, and the page, which does not reload the list after a success, appends
  exactly that record to its list: its title is the trimmed input, its completed flag is
  false, its identifier and creation timestamp are the worker's.
\<close>

theorem create_intent_adds_one_record:
  assumes "fd ''intent'' = Some ''create''" "fd ''title'' = Some t" "trim t \<noteq> []"
  shows "submit routing defaultShouldRevalidate keys uuid serverNow clientNow toastNow rnd fd (st, kv) =
           Inr (st\<lparr>todos := todos st @ [[''title'' \<mapsto> JStr (trim t), ''id'' \<mapsto> JStr uuid,
                                          ''completed'' \<mapsto> JBool False,
                                          ''createdAt'' \<mapsto> JStr serverNow]],
                   newTodoTitle := [],
                   srAnnouncement := Todo_added (Some (JStr (trim t)))\<rparr>,
                kv(uuid \<mapsto> JObj [''title'' \<mapsto> JStr (trim t), ''id'' \<mapsto> JStr uuid,
                                ''completed'' \<mapsto> JBool False,
                                ''createdAt'' \<mapsto> JStr serverNow]))
         \<and> length (snd (fst (action (fetchInternal routing uuid serverNow) clientNow fd kv))) = 1"
  using assms by (simp add: submit_create action_create_stored)

text \<open>
  A counterexample to C4 as stated. The claim is about every create intent with a
  non-empty title. A title of two spaces is not empty, and it is rejected: the result is
  the error result, nothing is stored, and the list, reloaded from the empty store or
  not, stays empty.
\<close>

theorem blank_title_counterexample:
  "''  '' \<noteq> []
   \<and> action (fetchInternal Inl ''u1'' ''2024-05-02T08:00:00.000Z'') ''2024-05-02T07:59:59.000Z''
        [''intent'' \<mapsto> ''create'', ''title'' \<mapsto> ''  ''] Map.empty
      = ((ErrorResult ''Title is required'', []), Map.empty)
   \<and> map_sum id (\<lambda>s. todos (fst s))
        (submit Inl True [] ''u1'' ''2024-05-02T08:00:00.000Z'' ''2024-05-02T07:59:59.000Z'' 0 0
           [''intent'' \<mapsto> ''create'', ''title'' \<mapsto> ''  '']
           (\<lparr>todos = [], newTodoTitle = ''  '', editingTodoId = None,
             editTodoTitle = [], deletingTodoId = None, deletingTodoIdRef = None,
             srAnnouncement = Text [], toasts = []\<rparr>, Map.empty)) = Inr []
   \<and> map_sum id (\<lambda>s. todos (fst s))
        (submit Inl False [] ''u1'' ''2024-05-02T08:00:00.000Z'' ''2024-05-02T07:59:59.000Z'' 0 0
           [''intent'' \<mapsto> ''create'', ''title'' \<mapsto> ''  '']
           (\<lparr>todos = [], newTodoTitle = ''  '', editingTodoId = None,
             editTodoTitle = [], deletingTodoId = None, deletingTodoIdRef = None,
             srAnnouncement = Text [], toasts = []\<rparr>, Map.empty)) = Inr []"
  by (simp add: submit_def action_title_required actionData_effect_def trim_blank
        shouldRevalidate_def loader_def todos_get_def c_json_def ok_def
        initialTodos_effect_def)

text \<open>The amended claim on the empty page and store, for the title \<^verbatim>\<open>" tea "\<close>.\<close>

theorem create_intent_adds_one_record_witness:
  "submit Inl True [] ''u1'' ''2024-05-02T08:00:00.000Z'' ''2024-05-02T07:59:59.000Z'' 0 0
     [''intent'' \<mapsto> ''create'', ''title'' \<mapsto> '' tea '']
     (\<lparr>todos = [], newTodoTitle = '' tea '', editingTodoId = None,
       editTodoTitle = [], deletingTodoId = None, deletingTodoIdRef = None,
       srAnnouncement = Text [], toasts = []\<rparr>, Map.empty)
   = Inr (\<lparr>todos = [[''title'' \<mapsto> JStr ''tea'', ''id'' \<mapsto> JStr ''u1'',
                       ''completed'' \<mapsto> JBool False,
                       ''createdAt'' \<mapsto> JStr ''2024-05-02T08:00:00.000Z'']],
            newTodoTitle = [], editingTodoId = None,
            editTodoTitle = [], deletingTodoId = None, deletingTodoIdRef = None,
            srAnnouncement = Todo_added (Some (JStr ''tea'')), toasts = []\<rparr>,
          [''u1'' \<mapsto> JObj [''title'' \<mapsto> JStr ''tea'', ''id'' \<mapsto> JStr ''u1'',
                          ''completed'' \<mapsto> JBool False,
                          ''createdAt'' \<mapsto> JStr ''2024-05-02T08:00:00.000Z'']])"
  using create_intent_adds_one_record
    [where fd = "[''intent'' \<mapsto> ''create'', ''title'' \<mapsto> '' tea '']" and t = "'' tea ''"
      and defaultShouldRevalidate = True and keys = "[]"
      and uuid = "''u1''" and routing = Inl and serverNow = "''2024-05-02T08:00:00.000Z''"
      and clientNow = "''2024-05-02T07:59:59.000Z''" and toastNow = 0 and rnd = 0
      and kv = Map.empty
      and st = "\<lparr>todos = [], newTodoTitle = '' tea '', editingTodoId = None,
                   editTodoTitle = [], deletingTodoId = None, deletingTodoIdRef = None,
                   srAnnouncement = Text [], toasts = []\<rparr>"]
  by (simp add: trim_tea)

section \<open>Toggling the completed flag\<close>

lemma stamp_less_JStr:
  "stamp_less p (Some (JStr s)) = (\<exists>a. p = Some (JStr a) \<and> a < s)"
  by (cases "(p, Some (JStr s))" rule: stamp_less.cases) simp_all

text \<open>
  A counterexample to C6 as stated. The claim says that \<open>updatedAt\<close> strictly increases
  at every update that supplies only \<open>completed\<close>. The new value is the worker's clock
  reading, whatever the old one was: an update at the reading the record already carries
  leaves \<open>updatedAt\<close> equal, not later.
\<close>

theorem same_clock_update_counterexample:
  "spread (kv_get [''a1'' \<mapsto> JObj [''id'' \<mapsto> JStr ''a1'', ''title'' \<mapsto> JStr ''milk'',
                                       ''completed'' \<mapsto> JBool False,
                                       ''createdAt'' \<mapsto> JStr ''2024-05-01T10:00:00.000Z'',
                                       ''updatedAt'' \<mapsto> JStr ''2024-05-02T08:00:00.000Z'']]
             ''a1'') ''updatedAt''
     = Some (JStr ''2024-05-02T08:00:00.000Z'')
   \<and> \<not> stamp_less (Some (JStr ''2024-05-02T08:00:00.000Z''))
        (spread (kv_get
           (snd (action (fetchInternal Inl ''u1'' ''2024-05-02T08:00:00.000Z'')
                   ''2024-05-02T08:00:00.000Z''
                   [''intent'' \<mapsto> ''update'', ''id'' \<mapsto> ''a1'', ''completed'' \<mapsto> ''true'']
                   [''a1'' \<mapsto> JObj [''id'' \<mapsto> JStr ''a1'', ''title'' \<mapsto> JStr ''milk'',
                                   ''completed'' \<mapsto> JBool False,
                                   ''createdAt'' \<mapsto> JStr ''2024-05-01T10:00:00.000Z'',
                                   ''updatedAt'' \<mapsto> JStr ''2024-05-02T08:00:00.000Z'']]))
           ''a1'') ''updatedAt'')"
  by (simp add: action_update_stored kv_get_def)

text \<open>
  Claim C6 (amended). For every update intent that supplies only \<open>completed\<close>, on an
  existing record, the title is unchanged. When the identifier reaches the update route as
  it is (as a generated UUID does; the dispatcher pastes it into the request path without
  escaping), \<open>completed\<close> is the supplied value and \<open>updatedAt\<close> becomes the worker's
  clock reading at the request; so it is strictly later than the previous \<open>updatedAt\<close>
  (or than \<open>createdAt\<close>) exactly when that reading is strictly later than the previous
  stamp.
\<close>

theorem toggle_keeps_title_and_stamps:
  assumes "fd ''intent'' = Some ''update''" "fd ''id'' = Some tid" "tid \<noteq> []"
    "fd ''title'' = None" "fd ''completed'' = Some c" "kv tid = Some (JObj m)"
  shows "spread (kv_get (snd (action (fetchInternal routing uuid serverNow) clientNow fd kv)) tid)
           ''title'' = m ''title''
         \<and> (routing tid = Inl tid \<longrightarrow>
             spread (kv_get (snd (action (fetchInternal routing uuid serverNow) clientNow fd kv)) tid)
               ''completed'' = Some (JBool (c = ''true''))
             \<and> spread (kv_get (snd (action (fetchInternal routing uuid serverNow) clientNow fd kv)) tid)
                 ''updatedAt'' = Some (JStr serverNow)
             \<and> stamp_less (m ''updatedAt'')
                  (spread (kv_get (snd (action (fetchInternal routing uuid serverNow) clientNow fd kv))
                             tid) ''updatedAt'')
                 = (\<exists>p. m ''updatedAt'' = Some (JStr p) \<and> p < serverNow)
             \<and> stamp_less (m ''createdAt'')
                  (spread (kv_get (snd (action (fetchInternal routing uuid serverNow) clientNow fd kv))
                             tid) ''updatedAt'')
                 = (\<exists>p. m ''createdAt'' = Some (JStr p) \<and> p < serverNow))"
  using assms by (simp add: action_update_at merged_fields kv_get_def stamp_less_JStr)

text \<open>A record created on 1 May and completed on 2 May.\<close>

theorem toggle_keeps_title_and_stamps_witness:
  "spread (kv_get
     (snd (action (fetchInternal Inl ''u1'' ''2024-05-02T08:00:00.000Z'')
             ''2024-05-02T07:59:59.000Z''
             [''intent'' \<mapsto> ''update'', ''id'' \<mapsto> ''a1'', ''completed'' \<mapsto> ''true'']
             [''a1'' \<mapsto> JObj [''id'' \<mapsto> JStr ''a1'', ''title'' \<mapsto> JStr ''milk'',
                             ''completed'' \<mapsto> JBool False,
                             ''createdAt'' \<mapsto> JStr ''2024-05-01T10:00:00.000Z'']]))
     ''a1'') ''title'' = Some (JStr ''milk'')
   \<and> spread (kv_get
       (snd (action (fetchInternal Inl ''u1'' ''2024-05-02T08:00:00.000Z'')
               ''2024-05-02T07:59:59.000Z''
               [''intent'' \<mapsto> ''update'', ''id'' \<mapsto> ''a1'', ''completed'' \<mapsto> ''true'']
               [''a1'' \<mapsto> JObj [''id'' \<mapsto> JStr ''a1'', ''title'' \<mapsto> JStr ''milk'',
                               ''completed'' \<mapsto> JBool False,
                               ''createdAt'' \<mapsto> JStr ''2024-05-01T10:00:00.000Z'']]))
       ''a1'') ''completed'' = Some (JBool True)
   \<and> spread (kv_get
       (snd (action (fetchInternal Inl ''u1'' ''2024-05-02T08:00:00.000Z'')
               ''2024-05-02T07:59:59.000Z''
               [''intent'' \<mapsto> ''update'', ''id'' \<mapsto> ''a1'', ''completed'' \<mapsto> ''true'']
               [''a1'' \<mapsto> JObj [''id'' \<mapsto> JStr ''a1'', ''title'' \<mapsto> JStr ''milk'',
                               ''completed'' \<mapsto> JBool False,
                               ''createdAt'' \<mapsto> JStr ''2024-05-01T10:00:00.000Z'']]))
       ''a1'') ''updatedAt'' = Some (JStr ''2024-05-02T08:00:00.000Z'')
   \<and> stamp_less (Some (JStr ''2024-05-01T10:00:00.000Z''))
       (spread (kv_get
          (snd (action (fetchInternal Inl ''u1'' ''2024-05-02T08:00:00.000Z'')
                  ''2024-05-02T07:59:59.000Z''
                  [''intent'' \<mapsto> ''update'', ''id'' \<mapsto> ''a1'', ''completed'' \<mapsto> ''true'']
                  [''a1'' \<mapsto> JObj [''id'' \<mapsto> JStr ''a1'', ''title'' \<mapsto> JStr ''milk'',
                                  ''completed'' \<mapsto> JBool False,
                                  ''createdAt'' \<mapsto> JStr ''2024-05-01T10:00:00.000Z'']]))
          ''a1'') ''updatedAt'')"
  using toggle_keeps_title_and_stamps
    [where fd = "[''intent'' \<mapsto> ''update'', ''id'' \<mapsto> ''a1'', ''completed'' \<mapsto> ''true'']"
      and tid = "''a1''" and c = "''true''"
      and uuid = "''u1''" and routing = Inl and serverNow = "''2024-05-02T08:00:00.000Z''"
      and clientNow = "''2024-05-02T07:59:59.000Z''"
      and kv = "[''a1'' \<mapsto> JObj [''id'' \<mapsto> JStr ''a1'', ''title'' \<mapsto> JStr ''milk'',
                                  ''completed'' \<mapsto> JBool False,
                                  ''createdAt'' \<mapsto> JStr ''2024-05-01T10:00:00.000Z'']]"
      and m = "[''id'' \<mapsto> JStr ''a1'', ''title'' \<mapsto> JStr ''milk'',
                ''completed'' \<mapsto> JBool False,
                ''createdAt'' \<mapsto> JStr ''2024-05-01T10:00:00.000Z'']"]
  by simp

section \<open>The deferred delete and its undo\<close>




lemma loader_returns:
  "loader keys kv = Inr (JArr (filter truthy
     (map (\<lambda>name. let v = kv_get kv name
                   in if truthy v then JObj ((spread v)(''id'' \<mapsto> JStr name)) else JNull)
        keys)))"
  by (simp add: loader_def todos_get_def c_json_def ok_def)









section \<open>Error results in the view\<close>

lemma generated_id_nonempty: "generated_id now rnd \<noteq> []"
  by (simp add: generated_id_def)

lemma error_effect:
  "actionData_effect Idle (Some (AD_error e)) now rnd st
     = st\<lparr>toasts := toasts st @ [\<lparr>toast_id = generated_id now rnd, title = ''Error'',
                                    description = Some e, createdAt = now,
                                    duration = Some 3000, toast_action = None,
                                    onDismiss = None\<rparr>],
            srAnnouncement := Text (''Error: '' @ e)\<rparr>"
  by (simp add: actionData_effect_def addToast_def)

text \<open>
  A counterexample to C8 as stated. The claim says that the list is the same before and
  after an error result. The error result does not carry \<^verbatim>\<open>shouldRevalidate: false\<close>, so
  \<open>shouldRevalidate\<close> answers with the router's default; when that is to revalidate, the
  loader runs again and the page takes its list. Here the page still lists a todo that the
  store no longer holds: its update is answered 404, and after the error result the list
  is empty.
\<close>

theorem error_reload_counterexample:
  "fst (fst (action (fetchInternal Inl ''u1'' ''2024-05-02T08:00:00.000Z'')
               ''2024-05-02T07:59:59.000Z''
               [''intent'' \<mapsto> ''update'', ''id'' \<mapsto> ''a1'', ''completed'' \<mapsto> ''true'']
               Map.empty))
     = ErrorResult ''Failed to update todo (Status: 404 )''
   \<and> map_sum id (\<lambda>s. todos (fst s))
        (submit Inl True [] ''u1'' ''2024-05-02T08:00:00.000Z'' ''2024-05-02T07:59:59.000Z'' 9 4
           [''intent'' \<mapsto> ''update'', ''id'' \<mapsto> ''a1'', ''completed'' \<mapsto> ''true'']
           (\<lparr>todos = [[''id'' \<mapsto> JStr ''a1'', ''title'' \<mapsto> JStr ''milk'']],
             newTodoTitle = [], editingTodoId = None, editTodoTitle = [],
             deletingTodoId = None, deletingTodoIdRef = None,
             srAnnouncement = Text [], toasts = []\<rparr>, Map.empty))
     = Inr []"
  by (simp add: submit_def run_defs actionData_effect_def shouldRevalidate_def loader_returns
        initialTodos_effect_def)

text \<open>
  Claim C8 (amended). An error result reaches the effect as the error action data. The
  effect on the action's result leaves the list of todos as it is, whatever the navigation
  state, and at \<^verbatim>\<open>navigation.state = "idle"\<close> it changes nothing but the notification
  queue, which gets one notification with a duration of 3000 ms, and the screen-reader
  announcement. For an error result \<open>shouldRevalidate\<close> answers with the router's default.
  So whenever the dispatcher, run against the facade, returns an error result: if the
  router does not revalidate, the list after the submission is the list before it; if it
  does, the list is replaced by the list the loader returns, when that is a list of
  todos. In both cases the notification is queued.
\<close>

theorem error_result_keeps_list_until_reload:
  "useActionData (ErrorResult e) = Some (AD_error e)
   \<and> todos (actionData_effect nav (Some (AD_error e)) now rnd st) = todos st
   \<and> actionData_effect Idle (Some (AD_error e)) now rnd st
       = st\<lparr>toasts := toasts st @ [\<lparr>toast_id = generated_id now rnd, title = ''Error'',
                                      description = Some e, createdAt = now,
                                      duration = Some 3000, toast_action = None,
                                      onDismiss = None\<rparr>],
              srAnnouncement := Text (''Error: '' @ e)\<rparr>
   \<and> shouldRevalidate (result_shouldRevalidate (ErrorResult e)) defaultShouldRevalidate
       = defaultShouldRevalidate
   \<and> (action (fetchInternal routing uuid serverNow) clientNow formData kv = ((ErrorResult e, sent), kv')
      \<longrightarrow> submit routing False keys uuid serverNow clientNow now rnd formData (st, kv)
            = Inr (st\<lparr>toasts := toasts st @ [\<lparr>toast_id = generated_id now rnd,
                                                title = ''Error'', description = Some e,
                                                createdAt = now, duration = Some 3000,
                                                toast_action = None, onDismiss = None\<rparr>],
                        srAnnouncement := Text (''Error: '' @ e)\<rparr>, kv')
          \<and> (\<forall>initialTodos. loader keys kv' = Inr (JArr initialTodos)
                \<and> list_all is_record initialTodos
              \<longrightarrow> submit routing True keys uuid serverNow clientNow now rnd formData (st, kv)
                    = Inr (st\<lparr>todos := map spread initialTodos,
                               toasts := toasts st @ [\<lparr>toast_id = generated_id now rnd,
                                                       title = ''Error'', description = Some e,
                                                       createdAt = now, duration = Some 3000,
                                                       toast_action = None,
                                                       onDismiss = None\<rparr>],
                               srAnnouncement := Text (''Error: '' @ e)\<rparr>, kv')))"
proof -
  have list: "todos (actionData_effect nav (Some (AD_error e)) now rnd st) = todos st"
    by (cases nav) (simp_all add: actionData_effect_def)
  have asks: "shouldRevalidate (result_shouldRevalidate (ErrorResult e)) defaultShouldRevalidate
       = defaultShouldRevalidate"
    by (simp add: shouldRevalidate_def)
  have through: "action (fetchInternal routing uuid serverNow) clientNow formData kv
        = ((ErrorResult e, sent), kv')
      \<longrightarrow> submit routing False keys uuid serverNow clientNow now rnd formData (st, kv)
            = Inr (st\<lparr>toasts := toasts st @ [\<lparr>toast_id = generated_id now rnd,
                                                title = ''Error'', description = Some e,
                                                createdAt = now, duration = Some 3000,
                                                toast_action = None, onDismiss = None\<rparr>],
                        srAnnouncement := Text (''Error: '' @ e)\<rparr>, kv')
          \<and> (\<forall>initialTodos. loader keys kv' = Inr (JArr initialTodos)
                \<and> list_all is_record initialTodos
              \<longrightarrow> submit routing True keys uuid serverNow clientNow now rnd formData (st, kv)
                    = Inr (st\<lparr>todos := map spread initialTodos,
                               toasts := toasts st @ [\<lparr>toast_id = generated_id now rnd,
                                                       title = ''Error'', description = Some e,
                                                       createdAt = now, duration = Some 3000,
                                                       toast_action = None,
                                                       onDismiss = None\<rparr>],
                               srAnnouncement := Text (''Error: '' @ e)\<rparr>, kv'))"
    by (simp add: submit_def shouldRevalidate_def error_effect initialTodos_effect_def)
  from list asks through show ?thesis by (simp add: error_effect)
qed

text \<open>
  An update of an identifier that is not stored, on a store that holds the one todo the
  page lists: the answer is 404; without a reload the list stays, and a reload brings
  the same list back.
\<close>

theorem error_result_keeps_list_until_reload_witness:
  "submit Inl False [''a1''] ''u1'' ''2024-05-02T08:00:00.000Z'' ''2024-05-02T07:59:59.000Z'' 9 4
     [''intent'' \<mapsto> ''update'', ''id'' \<mapsto> ''zz'', ''completed'' \<mapsto> ''true'']
     (\<lparr>todos = [[''id'' \<mapsto> JStr ''a1'', ''title'' \<mapsto> JStr ''milk'']],
       newTodoTitle = [], editingTodoId = None, editTodoTitle = [],
       deletingTodoId = None, deletingTodoIdRef = None,
       srAnnouncement = Text [], toasts = []\<rparr>,
      [''a1'' \<mapsto> JObj [''id'' \<mapsto> JStr ''a1'', ''title'' \<mapsto> JStr ''milk'']])
   = Inr (\<lparr>todos = [[''id'' \<mapsto> JStr ''a1'', ''title'' \<mapsto> JStr ''milk'']],
            newTodoTitle = [], editingTodoId = None, editTodoTitle = [],
            deletingTodoId = None, deletingTodoIdRef = None,
            srAnnouncement = Text ''Error: Failed to update todo (Status: 404 )'',
            toasts = [\<lparr>toast_id = ''toast-9-4'', title = ''Error'',
                       description = Some ''Failed to update todo (Status: 404 )'',
                       createdAt = 9, duration = Some 3000, toast_action = None,
                       onDismiss = None\<rparr>]\<rparr>,
          [''a1'' \<mapsto> JObj [''id'' \<mapsto> JStr ''a1'', ''title'' \<mapsto> JStr ''milk'']])
   \<and> map_sum id (\<lambda>s. todos (fst s))
        (submit Inl True [''a1''] ''u1'' ''2024-05-02T08:00:00.000Z'' ''2024-05-02T07:59:59.000Z'' 9 4
           [''intent'' \<mapsto> ''update'', ''id'' \<mapsto> ''zz'', ''completed'' \<mapsto> ''true'']
           (\<lparr>todos = [[''id'' \<mapsto> JStr ''a1'', ''title'' \<mapsto> JStr ''milk'']],
             newTodoTitle = [], editingTodoId = None, editTodoTitle = [],
             deletingTodoId = None, deletingTodoIdRef = None,
             srAnnouncement = Text [], toasts = []\<rparr>,
            [''a1'' \<mapsto> JObj [''id'' \<mapsto> JStr ''a1'', ''title'' \<mapsto> JStr ''milk'']]))
     = Inr [[''id'' \<mapsto> JStr ''a1'', ''title'' \<mapsto> JStr ''milk'']]"
proof -
  have failed: "action (fetchInternal Inl ''u1'' ''2024-05-02T08:00:00.000Z'')
               ''2024-05-02T07:59:59.000Z''
               [''intent'' \<mapsto> ''update'', ''id'' \<mapsto> ''zz'', ''completed'' \<mapsto> ''true'']
               [''a1'' \<mapsto> JObj [''id'' \<mapsto> JStr ''a1'', ''title'' \<mapsto> JStr ''milk'']]
     = ((ErrorResult ''Failed to update todo (Status: 404 )'',
         [PUT_todo ''zz'' (Some (JObj (JSON_stringify
            [''id'' \<mapsto> Some (JStr ''zz''), ''title'' \<mapsto> None,
             ''completed'' \<mapsto> Some (JBool True)])))]),
        [''a1'' \<mapsto> JObj [''id'' \<mapsto> JStr ''a1'', ''title'' \<mapsto> JStr ''milk'']])"
    by (simp add: action_def try_block_def update_case_def fetchInternal_def todos_put_def
          kv_get_def c_json_def ok_def failed_status_def error_message_def Let_def)
  have loaded: "loader [''a1'']
        [''a1'' \<mapsto> JObj [''id'' \<mapsto> JStr ''a1'', ''title'' \<mapsto> JStr ''milk'']]
     = Inr (JArr [JObj [''id'' \<mapsto> JStr ''a1'', ''title'' \<mapsto> JStr ''milk'']])"
    by (simp add: loader_returns kv_get_def) (rule ext, simp)
  from failed loaded
    error_result_keeps_list_until_reload
      [where e = "''Failed to update todo (Status: 404 )''" and uuid = "''u1''" and routing = Inl
        and serverNow = "''2024-05-02T08:00:00.000Z''"
        and clientNow = "''2024-05-02T07:59:59.000Z''" and now = 9 and rnd = 4
        and keys = "[''a1'']"
        and formData = "[''intent'' \<mapsto> ''update'', ''id'' \<mapsto> ''zz'',
                         ''completed'' \<mapsto> ''true'']"
        and kv = "[''a1'' \<mapsto> JObj [''id'' \<mapsto> JStr ''a1'', ''title'' \<mapsto> JStr ''milk'']]"
        and kv' = "[''a1'' \<mapsto> JObj [''id'' \<mapsto> JStr ''a1'', ''title'' \<mapsto> JStr ''milk'']]"
        and st = "\<lparr>todos = [[''id'' \<mapsto> JStr ''a1'', ''title'' \<mapsto> JStr ''milk'']],
                     newTodoTitle = [], editingTodoId = None, editTodoTitle = [],
                     deletingTodoId = None, deletingTodoIdRef = None,
                     srAnnouncement = Text [], toasts = []\<rparr>"]
  show ?thesis
    by (simp add: generated_id_def show_nat.simps digit_def)
qed

section \<open>Adding a notification\<close>

text \<open>
  A counterexample to C10 as stated. The claim says that every notification added ends up
  with a positive duration. \<^verbatim>\<open>toast.duration || 5000\<close> replaces only a missing or zero
  duration: a negative one is kept.
\<close>

theorem negative_duration_counterexample:
  "duration (last (addToast 7 3
      \<lparr>id_in = None, title_in = ''Saved'', description_in = None, duration_in = Some (- 1),
       action_in = None, onDismiss_in = (None :: callback option)\<rparr> []))
     = Some (- 1)
   \<and> \<not> (0 :: int) < - 1"
  by (simp add: addToast_def)

text \<open>
  Claim C10 (amended). Every notification added ends up with a duration that is not zero:
  a missing or zero duration becomes 5000 ms and any other supplied duration is kept, so
  the duration is positive whenever the caller supplied none or a non-negative one. A
  missing or empty identifier is replaced by the generated one, any other is kept, and the
  identifier is never empty. The notification is added at the end of the queue.
\<close>

theorem addToast_duration_and_id:
  "(\<exists>d. duration (last (addToast now rnd toast prev)) = Some d \<and> d \<noteq> 0)
   \<and> (duration_in toast = None \<or> duration_in toast = Some 0
      \<longrightarrow> duration (last (addToast now rnd toast prev)) = Some 5000)
   \<and> (\<forall>d. duration_in toast = Some d \<and> d \<noteq> 0
      \<longrightarrow> duration (last (addToast now rnd toast prev)) = Some d)
   \<and> (\<forall>d. duration_in toast = Some d \<and> 0 \<le> d
      \<longrightarrow> (\<exists>d'. duration (last (addToast now rnd toast prev)) = Some d' \<and> 0 < d'))
   \<and> (duration_in toast = None
      \<longrightarrow> (\<exists>d'. duration (last (addToast now rnd toast prev)) = Some d' \<and> 0 < d'))
   \<and> (id_in toast = None \<or> id_in toast = Some []
      \<longrightarrow> toast_id (last (addToast now rnd toast prev)) = generated_id now rnd)
   \<and> (\<forall>i. id_in toast = Some i \<and> i \<noteq> []
      \<longrightarrow> toast_id (last (addToast now rnd toast prev)) = i)
   \<and> toast_id (last (addToast now rnd toast prev)) \<noteq> []
   \<and> butlast (addToast now rnd toast prev) = prev"
  by (auto simp add: addToast_def generated_id_nonempty split: option.split)

text \<open>A zero duration with an empty identifier, and a supplied duration and identifier.\<close>

theorem addToast_duration_and_id_witness:
  "duration (last (addToast 7 3
      \<lparr>id_in = Some [], title_in = ''Saved'', description_in = None, duration_in = Some 0,
       action_in = None, onDismiss_in = (None :: callback option)\<rparr> []))
     = Some 5000
   \<and> toast_id (last (addToast 7 3
      \<lparr>id_in = Some [], title_in = ''Saved'', description_in = None, duration_in = Some 0,
       action_in = None, onDismiss_in = (None :: callback option)\<rparr> []))
     = ''toast-7-3''
   \<and> duration (last (addToast 7 3
      \<lparr>id_in = Some ''mine'', title_in = ''Saved'', description_in = None,
       duration_in = Some 1000, action_in = None, onDismiss_in = (None :: callback option)\<rparr> []))
     = Some 1000"
  using
    addToast_duration_and_id [where now = 7 and rnd = 3 and prev = "[]"
      and toast = "\<lparr>id_in = Some [], title_in = ''Saved'', description_in = None,
        duration_in = Some 0, action_in = None, onDismiss_in = (None :: callback option)\<rparr>"]
    addToast_duration_and_id [where now = 7 and rnd = 3 and prev = "[]"
      and toast = "\<lparr>id_in = Some ''mine'', title_in = ''Saved'', description_in = None,
        duration_in = Some 1000, action_in = None, onDismiss_in = (None :: callback option)\<rparr>"]
  by (simp add: generated_id_def show_nat.simps digit_def)

end
